theory Spec2Isabelle
  imports Main
begin

section \<open>Object model of the patched test module\<close>

text \<open>
  The script \<^verbatim>\<open>descriptor_test_wrapper.py\<close> consists of twenty attribute
  assignments on objects reached from the imported module \<^verbatim>\<open>descriptor_test\<close>,
  followed by a guarded call of \<^verbatim>\<open>unittest.main\<close>.  The module, its classes and
  its functions are Python objects that may be shared (a method inherited by a
  subclass is the very function object of the base class), so they live in an
  explicit store: a reference denotes an object, an object is its attribute
  dictionary together with the linearised list of its ancestors.  A module or a
  function has no ancestors.

  Attribute values are references or immutable primitives.  Reading an attribute
  of a class follows Python: the object's own dictionary first, then each
  ancestor in order; a name found nowhere raises \<^verbatim>\<open>AttributeError\<close>.  A function
  read through its class is the function object itself.  Primitives carry none of
  the names used here and reject attribute assignment, both with
  \<^verbatim>\<open>AttributeError\<close>.
\<close>

type_synonym ref = nat

datatype val = VRef ref | VBool bool | VInt int | VStr string | VNone

record pyobj =
  dict :: "string \<rightharpoonup> val"
  mro :: "ref list"

type_synonym heap = "ref \<Rightarrow> pyobj"

datatype error = AttributeError string

fun lookup_mro :: "heap \<Rightarrow> ref list \<Rightarrow> string \<Rightarrow> val option" where
  "lookup_mro h [] a = None"
| "lookup_mro h (r # rs) a =
     (case dict (h r) a of Some v \<Rightarrow> Some v | None \<Rightarrow> lookup_mro h rs a)"

fun getattr :: "heap \<Rightarrow> val \<Rightarrow> string \<Rightarrow> error + val" where
  "getattr h (VRef r) a =
     (case lookup_mro h (r # mro (h r)) a of
        Some v \<Rightarrow> Inr v
      | None \<Rightarrow> Inl (AttributeError a))"
| "getattr h (VBool b) a = Inl (AttributeError a)"
| "getattr h (VInt i) a = Inl (AttributeError a)"
| "getattr h (VStr s) a = Inl (AttributeError a)"
| "getattr h VNone a = Inl (AttributeError a)"

text \<open>The dotted expression \<^verbatim>\<open>v.a1.a2...an\<close>, evaluated left to right.\<close>

fun getattr_path :: "heap \<Rightarrow> val \<Rightarrow> string list \<Rightarrow> error + val" where
  "getattr_path h v [] = Inr v"
| "getattr_path h v (a # as) =
     (case getattr h v a of Inl e \<Rightarrow> Inl e | Inr v' \<Rightarrow> getattr_path h v' as)"

section \<open>Execution state\<close>

text \<open>
  The state of a run is the store, the exception or exit that ended the run (if
  any), and a log of what has happened so far: each attribute that was stored,
  and each start of the test runner together with the store the runner saw.
\<close>

datatype status = Normal | Raised error | Exited int

datatype event = AttrSet ref string val | RunnerStarted ref nat heap

record state =
  heap :: heap
  status :: status
  trace :: "event list"

definition init :: "heap \<Rightarrow> state" where
  "init h = \<lparr>heap = h, status = Normal, trace = []\<rparr>"

text \<open>\<^verbatim>\<open>target.a = v\<close>: the assignment stores into the target's own dictionary.\<close>

definition store :: "heap \<Rightarrow> ref \<Rightarrow> string \<Rightarrow> val \<Rightarrow> heap" where
  "store h r a v = h(r := (h r)\<lparr>dict := (dict (h r))(a \<mapsto> v)\<rparr>)"

fun setattr :: "val \<Rightarrow> string \<Rightarrow> val \<Rightarrow> state \<Rightarrow> state" where
  "setattr (VRef r) a v s =
     s\<lparr>heap := store (heap s) r a v, trace := trace s @ [AttrSet r a v]\<rparr>"
| "setattr (VBool b) a v s = s\<lparr>status := Raised (AttributeError a)\<rparr>"
| "setattr (VInt i) a v s = s\<lparr>status := Raised (AttributeError a)\<rparr>"
| "setattr (VStr x) a v s = s\<lparr>status := Raised (AttributeError a)\<rparr>"
| "setattr VNone a v s = s\<lparr>status := Raised (AttributeError a)\<rparr>"

text \<open>
  The statement \<^verbatim>\<open>descriptor_test.p1...pn.a = v\<close>, where \<open>m\<close> is the module
  object bound to \<^verbatim>\<open>descriptor_test\<close>.  A statement is reached only while no
  exception is pending.
\<close>

definition assign :: "ref \<Rightarrow> string list \<Rightarrow> string \<Rightarrow> val \<Rightarrow> state \<Rightarrow> state" where
  "assign m p a v s =
     (if status s \<noteq> Normal then s
      else case getattr_path (heap s) (VRef m) p of
             Inl e \<Rightarrow> s\<lparr>status := Raised e\<rparr>
           | Inr tgt \<Rightarrow> setattr tgt a v s)"

section \<open>The script\<close>

definition expecting_failure_attr :: string where
  "expecting_failure_attr = ''__unittest_expecting_failure__''"

definition skip_attr :: string where
  "skip_attr = ''__unittest_skip__''"

text \<open>Lines 29 to 47 of the script: class and method of each assignment, in order.\<close>

definition expecting_failure :: "(string \<times> string) list" where
  "expecting_failure =
    [(''DescriptorCopyToProtoTest'', ''testCopyToProto_TypeError''),
     (''GeneratedDescriptorTest'', ''testDescriptor''),
     (''MakeDescriptorTest'', ''testCamelcaseName''),
     (''MakeDescriptorTest'', ''testJsonName''),
     (''NewDescriptorTest'', ''testAggregateOptions''),
     (''NewDescriptorTest'', ''testComplexExtensionOptions''),
     (''NewDescriptorTest'', ''testContainingServiceFixups''),
     (''NewDescriptorTest'', ''testContainingTypeFixups''),
     (''NewDescriptorTest'', ''testCustomOptionsCopyTo''),
     (''NewDescriptorTest'', ''testDefault''),
     (''NewDescriptorTest'', ''testDifferentCustomOptionTypes''),
     (''NewDescriptorTest'', ''testEnumFixups''),
     (''NewDescriptorTest'', ''testEnumValueName''),
     (''NewDescriptorTest'', ''testFileDescriptor''),
     (''NewDescriptorTest'', ''testFileDescriptorReferences''),
     (''NewDescriptorTest'', ''testGetOptions''),
     (''NewDescriptorTest'', ''testImmutableCppDescriptor''),
     (''NewDescriptorTest'', ''testNestedOptions''),
     (''NewDescriptorTest'', ''testSimpleCustomOptions'')]"

text \<open>Line 55: the class that is skipped as a whole.\<close>

definition skip_class :: string where
  "skip_class = ''DescriptorTest''"

definition expect_failure :: "ref \<Rightarrow> string \<times> string \<Rightarrow> state \<Rightarrow> state" where
  "expect_failure m cf s =
     assign m [fst cf, snd cf] expecting_failure_attr (VBool True) s"

definition skip :: "ref \<Rightarrow> string \<Rightarrow> state \<Rightarrow> state" where
  "skip m c s = assign m [c] skip_attr (VBool True) s"

text \<open>
  Lines 29 to 55: the assignments, executed top to bottom.  The two imports on
  lines 26 and 27 are taken as done: \<open>m\<close> is the module object they bind to
  \<^verbatim>\<open>descriptor_test\<close>.
\<close>

definition patch :: "ref \<Rightarrow> state \<Rightarrow> state" where
  "patch m s = skip m skip_class (fold (expect_failure m) expecting_failure s)"

text \<open>
  \<^verbatim>\<open>unittest.main(module=m, verbosity=v)\<close> belongs to the standard library.  It
  loads and runs the tests of the module as the store then is, and leaves by
  \<^verbatim>\<open>sys.exit\<close>; the exit code it computes is the parameter \<open>run\<close>.  The
  script catches nothing, so that exit ends the process.
\<close>

type_synonym runner = "ref \<Rightarrow> nat \<Rightarrow> heap \<Rightarrow> int"

definition unittest_main :: "runner \<Rightarrow> ref \<Rightarrow> nat \<Rightarrow> state \<Rightarrow> state" where
  "unittest_main run m v s =
     (if status s \<noteq> Normal then s
      else s\<lparr>status := Exited (run m v (heap s)),
             trace := trace s @ [RunnerStarted m v (heap s)]\<rparr>)"

text \<open>
  The whole module body; \<open>name\<close> is the value of \<^verbatim>\<open>__name__\<close>.  Like every
  statement, the call on line 58 is reached only when nothing was raised before.
\<close>

definition descriptor_test_wrapper :: "runner \<Rightarrow> string \<Rightarrow> ref \<Rightarrow> state \<Rightarrow> state" where
  "descriptor_test_wrapper run name m s =
     (let s' = patch m s
      in if name = ''__main__'' then unittest_main run m 2 s' else s')"

section \<open>The table of dispositions and the objects it names\<close>

text \<open>
  Each assignment of the script is a dotted path below the module and the marker
  stored at its end; the stored value is always \<^verbatim>\<open>True\<close>.
\<close>

type_synonym disposition = "string list \<times> string"

definition dispositions :: "disposition list" where
  "dispositions =
     map (\<lambda>cf. ([fst cf, snd cf], expecting_failure_attr)) expecting_failure
       @ [([skip_class], skip_attr)]"

definition apply_disposition :: "ref \<Rightarrow> disposition \<Rightarrow> state \<Rightarrow> state" where
  "apply_disposition m d s = assign m (fst d) (snd d) (VBool True) s"

text \<open>The object a path denotes, when it exists and can take attributes.\<close>

definition target :: "ref \<Rightarrow> heap \<Rightarrow> string list \<Rightarrow> ref option" where
  "target m h p =
     (case getattr_path h (VRef m) p of Inr (VRef r) \<Rightarrow> Some r | _ \<Rightarrow> None)"

text \<open>The objects that the entries of a table with marker \<open>a\<close> denote.\<close>

definition targets :: "ref \<Rightarrow> heap \<Rightarrow> disposition list \<Rightarrow> string \<Rightarrow> ref list" where
  "targets m h ds a =
     List.map_filter (\<lambda>d. if snd d = a then target m h (fst d) else None) ds"

text \<open>A table is separated by \<open>K\<close> when its markers are in \<open>K\<close> and no path uses a name of \<open>K\<close>.\<close>

definition separated :: "string set \<Rightarrow> disposition list \<Rightarrow> bool" where
  "separated K ds = (\<forall>d \<in> set ds. snd d \<in> K \<and> (\<forall>n \<in> set (fst d). n \<notin> K))"

text \<open>
  Two stores are marker variants of each other when they agree on every ancestor
  list and on every attribute other than the two markers.
\<close>

definition marker_variant :: "heap \<Rightarrow> heap \<Rightarrow> bool" where
  "marker_variant h h' =
     ((\<forall>x. mro (h x) = mro (h' x))
      \<and> (\<forall>x k. k \<noteq> expecting_failure_attr \<and> k \<noteq> skip_attr \<longrightarrow> dict (h x) k = dict (h' x) k))"

text \<open>The starts of the test runner recorded in a log, oldest first.\<close>

fun runner_starts :: "event list \<Rightarrow> (ref \<times> nat \<times> heap) list" where
  "runner_starts [] = []"
| "runner_starts (AttrSet r a v # es) = runner_starts es"
| "runner_starts (RunnerStarted m v h # es) = (m, v, h) # runner_starts es"

section \<open>A sample module\<close>

text \<open>
  A store shaped like the upstream test module: object 0 is the module, objects
  1 to 5 are the five classes the script names, and \<^verbatim>\<open>NewDescriptorTest\<close>
  (object 4) is a subclass of \<^verbatim>\<open>DescriptorTest\<close> (object 5) that inherits all
  its test methods.  Objects 10 to 28 are the test functions.  Function 26 was
  decorated with a skip upstream, and class 6 was skipped upstream as a whole, so
  both carry a skip marker before the script runs.
\<close>

definition mk_obj :: "(string \<times> val) list \<Rightarrow> ref list \<Rightarrow> pyobj" where
  "mk_obj kvs ancestors = \<lparr>dict = map_of kvs, mro = ancestors\<rparr>"

definition sample_heap :: heap where
  "sample_heap = (\<lambda>r. mk_obj [] [])
    (0 := mk_obj [(''DescriptorCopyToProtoTest'', VRef 1),
                  (''GeneratedDescriptorTest'', VRef 2),
                  (''MakeDescriptorTest'', VRef 3),
                  (''NewDescriptorTest'', VRef 4),
                  (''DescriptorTest'', VRef 5),
                  (''UpstreamSkippedTest'', VRef 6)] [],
     1 := mk_obj [(''testCopyToProto_TypeError'', VRef 10)] [],
     2 := mk_obj [(''testDescriptor'', VRef 11)] [],
     3 := mk_obj [(''testCamelcaseName'', VRef 12), (''testJsonName'', VRef 13)] [],
     4 := mk_obj [] [5],
     5 := mk_obj [(''testAggregateOptions'', VRef 14),
                  (''testComplexExtensionOptions'', VRef 15),
                  (''testContainingServiceFixups'', VRef 16),
                  (''testContainingTypeFixups'', VRef 17),
                  (''testCustomOptionsCopyTo'', VRef 18),
                  (''testDefault'', VRef 19),
                  (''testDifferentCustomOptionTypes'', VRef 20),
                  (''testEnumFixups'', VRef 21),
                  (''testEnumValueName'', VRef 22),
                  (''testFileDescriptor'', VRef 23),
                  (''testFileDescriptorReferences'', VRef 24),
                  (''testGetOptions'', VRef 25),
                  (''testImmutableCppDescriptor'', VRef 26),
                  (''testNestedOptions'', VRef 27),
                  (''testSimpleCustomOptions'', VRef 28)] [],
     6 := mk_obj [(''__unittest_skip__'', VBool True)] [],
     26 := mk_obj [(''__unittest_skip__'', VBool True)] [])"

text \<open>The same module after \<^verbatim>\<open>testJsonName\<close> was removed upstream.\<close>

definition stale_heap :: heap where
  "stale_heap = sample_heap(3 := mk_obj [(''testCamelcaseName'', VRef 12)] [])"

text \<open>
  The sample module with an expected-failure marker preset to \<^verbatim>\<open>False\<close> on a
  listed function and a skip marker preset to a string on the skipped class.
\<close>

definition preset_heap :: heap where
  "preset_heap =
     store (store sample_heap 10 expecting_failure_attr (VBool False)) 5 skip_attr (VStr ''later'')"

text \<open>A runner that reports success exactly when the skipped class carries its marker.\<close>

definition sample_runner :: runner where
  "sample_runner m v h = (if dict (h 5) skip_attr = Some (VBool True) then 0 else 1)"

section \<open>Auxiliary facts\<close>

subsection \<open>Reading and storing attributes\<close>

lemma lookup_mro_cong:
  "(\<And>x. dict (h' x) a = dict (h x) a) \<Longrightarrow> lookup_mro h' rs a = lookup_mro h rs a"
  by (induction rs) (simp_all split: option.splits)

lemma getattr_cong:
  assumes "\<And>x. dict (h' x) a = dict (h x) a" and "\<And>x. mro (h' x) = mro (h x)"
  shows "getattr h' v a = getattr h v a"
proof (cases v)
  case (VRef r)
  have "lookup_mro h' (r # mro (h r)) a = lookup_mro h (r # mro (h r)) a"
    by (rule lookup_mro_cong) (rule assms(1))
  then show ?thesis using VRef assms(2) by simp
qed simp_all

lemma getattr_path_cong:
  assumes "\<And>a x. a \<in> set p \<Longrightarrow> dict (h' x) a = dict (h x) a" and "\<And>x. mro (h' x) = mro (h x)"
  shows "getattr_path h' v p = getattr_path h v p"
  using assms(1)
proof (induction p arbitrary: v)
  case Nil
  show ?case by simp
next
  case (Cons a p)
  have "getattr h' v a = getattr h v a"
    by (rule getattr_cong) (simp_all add: Cons.prems assms(2))
  moreover have "\<And>w. getattr_path h' w p = getattr_path h w p"
    by (rule Cons.IH) (simp add: Cons.prems)
  ultimately show ?case by (simp split: sum.splits)
qed

lemma getattr_own: "dict (h r) a = Some v \<Longrightarrow> getattr h (VRef r) a = Inr v"
  by simp

lemma dict_store: "dict (store h r a v x) k = (if x = r \<and> k = a then Some v else dict (h x) k)"
  by (simp add: store_def)

lemma mro_store: "mro (store h r a v x) = mro (h x)"
  by (simp add: store_def)

lemma target_Some_iff: "target m h p = Some r \<longleftrightarrow> getattr_path h (VRef m) p = Inr (VRef r)"
  by (auto simp: target_def split: sum.splits val.splits)

lemma missing_target_None:
  "getattr_path h (VRef m) p = Inl e \<Longrightarrow> target m h p = None"
  by (simp add: target_def)

lemma target_store:
  "a \<notin> set p \<Longrightarrow> target m (store h r a v) p = target m h p"
  unfolding target_def
  by (subst getattr_path_cong [of p _ h]) (auto simp: dict_store mro_store)

lemma heap_eqI:
  fixes h h' :: heap
  assumes "\<And>x. mro (h x) = mro (h' x)" and "\<And>x k. dict (h x) k = dict (h' x) k"
  shows "h = h'"
proof
  fix x
  have "dict (h x) = dict (h' x)" using assms(2) by (simp add: fun_eq_iff)
  with assms(1) show "h x = h' x" by simp
qed

lemma init_simps: "heap (init h) = h" "status (init h) = Normal" "trace (init h) = []"
  by (simp_all add: init_def)

lemma marker_variant_path:
  assumes "marker_variant h h'" and "expecting_failure_attr \<notin> set p" and "skip_attr \<notin> set p"
  shows "getattr_path h v p = getattr_path h' v p"
proof (rule getattr_path_cong)
  fix a x assume "a \<in> set p"
  with assms(2,3) have "a \<noteq> expecting_failure_attr \<and> a \<noteq> skip_attr" by auto
  with assms(1) show "dict (h x) a = dict (h' x) a" by (simp add: marker_variant_def)
next
  fix x show "mro (h x) = mro (h' x)" using assms(1) by (simp add: marker_variant_def)
qed

lemma marker_variant_store:
  "marker_variant h h' \<Longrightarrow> marker_variant (store h r a v) (store h' r a v)"
  by (simp add: marker_variant_def dict_store mro_store)

lemma assign_skip: "status s \<noteq> Normal \<Longrightarrow> assign m p a v s = s"
  by (simp add: assign_def)

lemma assign_Some:
  "status s = Normal \<Longrightarrow> target m (heap s) p = Some r \<Longrightarrow>
   assign m p a v s = s\<lparr>heap := store (heap s) r a v, trace := trace s @ [AttrSet r a v]\<rparr>"
  by (auto simp: assign_def target_def split: sum.splits val.splits)

lemma assign_None:
  "status s = Normal \<Longrightarrow> target m (heap s) p = None \<Longrightarrow>
   \<exists>n. assign m p a v s = s\<lparr>status := Raised (AttributeError n)\<rparr>"
  apply (auto simp: assign_def target_def split: sum.splits val.splits)
  apply (metis error.exhaust)
  done

lemma assign_variant:
  assumes "marker_variant (heap s) (heap s')" and "status s = status s'"
    and "expecting_failure_attr \<notin> set p" and "skip_attr \<notin> set p"
  shows "marker_variant (heap (assign m p a v s)) (heap (assign m p a v s'))
       \<and> status (assign m p a v s) = status (assign m p a v s')"
proof (cases "status s = Normal")
  case False
  with assms(1,2) show ?thesis by (simp add: assign_skip)
next
  case True
  then have st: "status s = Normal" "status s' = Normal" using assms(2) by simp_all
  have path: "getattr_path (heap s) (VRef m) p = getattr_path (heap s') (VRef m) p"
    using assms(1,3,4) by (rule marker_variant_path)
  show ?thesis
  proof (cases "getattr_path (heap s') (VRef m) p")
    case (Inl e)
    with path st assms(1) show ?thesis by (simp add: assign_def)
  next
    case (Inr tgt)
    with path st assms(1) show ?thesis
      by (cases tgt) (simp_all add: assign_def marker_variant_store)
  qed
qed

lemma runner_starts_append: "runner_starts (es @ es') = runner_starts es @ runner_starts es'"
  by (induction es rule: runner_starts.induct) simp_all

subsection \<open>A table of assignments applied to a state\<close>

lemma fold_skip: "status s \<noteq> Normal \<Longrightarrow> fold (apply_disposition m) ds s = s"
  by (induction ds) (simp_all add: apply_disposition_def assign_skip)

lemma separated_Cons:
  "separated K (d # ds) = (snd d \<in> K \<and> (\<forall>n \<in> set (fst d). n \<notin> K) \<and> separated K ds)"
  by (auto simp: separated_def)

lemma target_store_separated:
  "separated K ds \<Longrightarrow> a \<in> K \<Longrightarrow> d \<in> set ds \<Longrightarrow>
   target m (store h r a v) (fst d) = target m h (fst d)"
  by (rule target_store) (auto simp: separated_def)

lemma set_targets:
  "set (targets m h ds k) = {r. \<exists>d \<in> set ds. snd d = k \<and> target m h (fst d) = Some r}"
  by (auto simp: targets_def map_filter_def image_iff split: if_splits) force

lemma targets_store_separated:
  "separated K ds \<Longrightarrow> a \<in> K \<Longrightarrow>
   set (targets m (store h r a v) ds k) = set (targets m h ds k)"
  by (simp add: set_targets target_store_separated cong: rev_conj_cong bex_cong)

lemma targets_outside:
  "separated K ds \<Longrightarrow> k \<notin> K \<Longrightarrow> set (targets m h ds k) = {}"
  by (auto simp: set_targets separated_def)

lemma apply_disposition_cases:
  fixes s :: state
  obtains (skip) "status s \<noteq> Normal" "apply_disposition m d s = s"
  | (raise) n where "status s = Normal" "target m (heap s) (fst d) = None"
      "apply_disposition m d s = s\<lparr>status := Raised (AttributeError n)\<rparr>"
  | (store) r where "status s = Normal" "target m (heap s) (fst d) = Some r"
      "apply_disposition m d s = s\<lparr>heap := store (heap s) r (snd d) (VBool True),
                    trace := trace s @ [AttrSet r (snd d) (VBool True)]\<rparr>"
proof (cases "status s = Normal")
  case False
  then show ?thesis using skip by (simp add: apply_disposition_def assign_skip)
next
  case True
  show ?thesis
  proof (cases "target m (heap s) (fst d)")
    case None
    with True assign_None [of s m "fst d" "snd d" "VBool True"] raise show ?thesis
      by (auto simp: apply_disposition_def)
  next
    case (Some r)
    with True assign_Some [of s m "fst d" r "snd d" "VBool True"] store show ?thesis
      by (auto simp: apply_disposition_def)
  qed
qed

lemma fold_success:
  assumes "separated K ds" and "status s = Normal"
    and "\<forall>d \<in> set ds. target m (heap s) (fst d) \<noteq> None"
  shows "status (fold (apply_disposition m) ds s) = Normal
    \<and> trace (fold (apply_disposition m) ds s) =
        trace s @ map (\<lambda>d. AttrSet (the (target m (heap s) (fst d))) (snd d) (VBool True)) ds
    \<and> (\<forall>x. mro (heap (fold (apply_disposition m) ds s) x) = mro (heap s x))
    \<and> (\<forall>x k. dict (heap (fold (apply_disposition m) ds s) x) k =
          (if x \<in> set (targets m (heap s) ds k) then Some (VBool True) else dict (heap s x) k))"
  using assms
proof (induction ds arbitrary: s)
  case Nil
  then show ?case by (simp add: targets_def map_filter_simps)
next
  case (Cons d ds)
  from Cons.prems(3) obtain r where r: "target m (heap s) (fst d) = Some r" by auto
  define s1 where "s1 = apply_disposition m d s"
  have s1: "s1 = s\<lparr>heap := store (heap s) r (snd d) (VBool True),
                    trace := trace s @ [AttrSet r (snd d) (VBool True)]\<rparr>"
    unfolding s1_def apply_disposition_def using Cons.prems(2) r by (rule assign_Some)
  have sep: "separated K ds" and K: "snd d \<in> K"
    using Cons.prems(1) by (simp_all add: separated_Cons)
  have tgt: "\<And>d'. d' \<in> set ds \<Longrightarrow> target m (heap s1) (fst d') = target m (heap s) (fst d')"
    using sep K by (simp add: s1 target_store_separated)
  have tgts: "\<And>k. set (targets m (heap s1) ds k) = set (targets m (heap s) ds k)"
    using sep K by (simp add: s1 targets_store_separated)
  have "status s1 = Normal" using Cons.prems(2) by (simp add: s1)
  moreover have "\<forall>d' \<in> set ds. target m (heap s1) (fst d') \<noteq> None"
    using Cons.prems(3) tgt by simp
  ultimately have IH:
    "status (fold (apply_disposition m) ds s1) = Normal
    \<and> trace (fold (apply_disposition m) ds s1) =
        trace s1 @ map (\<lambda>d. AttrSet (the (target m (heap s1) (fst d))) (snd d) (VBool True)) ds
    \<and> (\<forall>x. mro (heap (fold (apply_disposition m) ds s1) x) = mro (heap s1 x))
    \<and> (\<forall>x k. dict (heap (fold (apply_disposition m) ds s1) x) k =
          (if x \<in> set (targets m (heap s1) ds k) then Some (VBool True) else dict (heap s1 x) k))"
    using Cons.IH [OF sep] by blast
  have f: "fold (apply_disposition m) (d # ds) s = fold (apply_disposition m) ds s1"
    by (simp add: s1_def)
  have m1: "map (\<lambda>d. AttrSet (the (target m (heap s1) (fst d))) (snd d) (VBool True)) ds
          = map (\<lambda>d. AttrSet (the (target m (heap s) (fst d))) (snd d) (VBool True)) ds"
    using tgt by simp
  have c1: "status (fold (apply_disposition m) (d # ds) s) = Normal"
    using IH f by simp
  have c2: "trace (fold (apply_disposition m) (d # ds) s) =
        trace s @ map (\<lambda>d. AttrSet (the (target m (heap s) (fst d))) (snd d) (VBool True)) (d # ds)"
    using IH f m1 by (simp add: s1 r)
  have c3: "\<forall>x. mro (heap (fold (apply_disposition m) (d # ds) s) x) = mro (heap s x)"
    using IH f by (simp add: s1 mro_store)
  have hd: "\<And>k. set (targets m (heap s) (d # ds) k)
            = (if snd d = k then {r} else {}) \<union> set (targets m (heap s) ds k)"
    using r by (auto simp: set_targets)
  have c4: "\<forall>x k. dict (heap (fold (apply_disposition m) (d # ds) s) x) k =
          (if x \<in> set (targets m (heap s) (d # ds) k) then Some (VBool True) else dict (heap s x) k)"
    using IH f tgts by (auto simp: s1 dict_store hd)
  from c1 c2 c3 c4 show ?case by blast
qed

lemma fold_failure:
  assumes "separated K ds" and "status s = Normal"
    and "\<exists>d \<in> set ds. target m (heap s) (fst d) = None"
  shows "\<exists>n. status (fold (apply_disposition m) ds s) = Raised (AttributeError n)"
  using assms
proof (induction ds arbitrary: s)
  case Nil
  then show ?case by simp
next
  case (Cons d ds)
  have sep: "separated K ds" and K: "snd d \<in> K"
    using Cons.prems(1) by (simp_all add: separated_Cons)
  show ?case
  proof (cases rule: apply_disposition_cases [where s = s and m = m and d = d])
    case skip
    with Cons.prems(2) show ?thesis by simp
  next
    case (raise n)
    then show ?thesis by (simp add: fold_skip)
  next
    case (store r)
    define s1 where "s1 = apply_disposition m d s"
    have h1: "heap s1 = store (heap s) r (snd d) (VBool True)" and st1: "status s1 = Normal"
      using store by (simp_all add: s1_def)
    from Cons.prems(3) store(2) obtain d' where d': "d' \<in> set ds" "target m (heap s) (fst d') = None"
      by auto
    then have "target m (heap s1) (fst d') = None"
      using sep K by (simp add: h1 target_store_separated)
    with d' have "\<exists>d \<in> set ds. target m (heap s1) (fst d) = None" by blast
    from Cons.IH [OF sep st1 this] show ?thesis by (simp add: s1_def)
  qed
qed

lemma fold_frame:
  assumes "separated K ds"
  shows "(\<forall>x. mro (heap (fold (apply_disposition m) ds s) x) = mro (heap s x))
    \<and> (\<forall>x k. dict (heap (fold (apply_disposition m) ds s) x) k = dict (heap s x) k
          \<or> x \<in> set (targets m (heap s) ds k)
            \<and> dict (heap (fold (apply_disposition m) ds s) x) k = Some (VBool True))"
  using assms
proof (induction ds arbitrary: s)
  case Nil
  then show ?case by simp
next
  case (Cons d ds)
  have sep: "separated K ds" and K: "snd d \<in> K"
    using Cons.prems(1) by (simp_all add: separated_Cons)
  show ?case
  proof (cases rule: apply_disposition_cases [where s = s and m = m and d = d])
    case skip
    then show ?thesis by (simp add: fold_skip)
  next
    case (raise n)
    then show ?thesis by (simp add: fold_skip)
  next
    case (store r)
    define s1 where "s1 = apply_disposition m d s"
    have h1: "heap s1 = store (heap s) r (snd d) (VBool True)"
      using store by (simp add: s1_def)
    have tgts: "\<And>k. set (targets m (heap s1) ds k) = set (targets m (heap s) ds k)"
      using sep K by (simp add: h1 targets_store_separated)
    have hd: "\<And>k. set (targets m (heap s) (d # ds) k)
            = (if snd d = k then {r} else {}) \<union> set (targets m (heap s) ds k)"
      using store(2) by (auto simp: set_targets)
    have f: "fold (apply_disposition m) (d # ds) s = fold (apply_disposition m) ds s1"
      by (simp add: s1_def)
    have IH1: "\<And>x. mro (heap (fold (apply_disposition m) ds s1) x) = mro (heap s x)"
      using Cons.IH [OF sep, of s1] by (simp add: h1 mro_store)
    have IH2: "\<And>x k. dict (heap (fold (apply_disposition m) ds s1) x) k = dict (heap s1 x) k
          \<or> x \<in> set (targets m (heap s) ds k)
            \<and> dict (heap (fold (apply_disposition m) ds s1) x) k = Some (VBool True)"
      using Cons.IH [OF sep, of s1] by (simp add: tgts)
    have "dict (heap (fold (apply_disposition m) ds s1) x) k = dict (heap s x) k
          \<or> x \<in> set (targets m (heap s) (d # ds) k)
            \<and> dict (heap (fold (apply_disposition m) ds s1) x) k = Some (VBool True)" for x k
      using IH2 [of x k] by (auto simp: hd h1 dict_store split: if_splits)
    with IH1 show ?thesis unfolding f by blast
  qed
qed

lemma fold_runner_starts:
  "runner_starts (trace (fold (apply_disposition m) ds s)) = runner_starts (trace s)"
proof (induction ds arbitrary: s)
  case Nil
  show ?case by simp
next
  case (Cons d ds)
  show ?case
    by (cases rule: apply_disposition_cases [where s = s and m = m and d = d])
       (simp_all add: Cons.IH runner_starts_append)
qed

lemma fold_variant:
  assumes "separated {expecting_failure_attr, skip_attr} ds"
    and "marker_variant (heap s) (heap s')" and "status s = status s'"
  shows "marker_variant (heap (fold (apply_disposition m) ds s))
           (heap (fold (apply_disposition m) ds s'))
       \<and> status (fold (apply_disposition m) ds s) = status (fold (apply_disposition m) ds s')"
  using assms
proof (induction ds arbitrary: s s')
  case Nil
  then show ?case by simp
next
  case (Cons d ds)
  have sep: "separated {expecting_failure_attr, skip_attr} ds"
    and p: "expecting_failure_attr \<notin> set (fst d)" "skip_attr \<notin> set (fst d)"
    using Cons.prems(1) by (auto simp: separated_Cons)
  have step: "marker_variant (heap (apply_disposition m d s)) (heap (apply_disposition m d s'))
       \<and> status (apply_disposition m d s) = status (apply_disposition m d s')"
    unfolding apply_disposition_def using Cons.prems(2,3) p by (rule assign_variant)
  then show ?case using Cons.IH [OF sep] by simp
qed

subsection \<open>The assignments of the script\<close>

lemma patch_fold: "patch m s = fold (apply_disposition m) dispositions s"
proof -
  have "expect_failure m = (\<lambda>cf. apply_disposition m ([fst cf, snd cf], expecting_failure_attr))"
    by (simp add: fun_eq_iff apply_disposition_def expect_failure_def)
  then show ?thesis
    by (simp add: patch_def dispositions_def skip_def fold_map comp_def apply_disposition_def)
qed

lemma separated_dispositions:
  "separated {expecting_failure_attr, skip_attr} dispositions"
  by code_simp

lemma patch_skip: "status s \<noteq> Normal \<Longrightarrow> patch m s = s"
  by (simp add: patch_fold fold_skip)

lemma patch_Normal_pre: "status (patch m s) = Normal \<Longrightarrow> status s = Normal"
  using patch_skip [of s m] by (cases "status s = Normal") simp_all

lemma patch_raises:
  "status s = Normal \<Longrightarrow> \<exists>d \<in> set dispositions. target m (heap s) (fst d) = None \<Longrightarrow>
   \<exists>n. status (patch m s) = Raised (AttributeError n)"
  unfolding patch_fold by (rule fold_failure [OF separated_dispositions])

lemma patch_Normal_targets:
  assumes "status (patch m s) = Normal" and "d \<in> set dispositions"
  shows "target m (heap s) (fst d) \<noteq> None"
proof
  assume "target m (heap s) (fst d) = None"
  with assms(2) have "\<exists>d \<in> set dispositions. target m (heap s) (fst d) = None" by blast
  from patch_raises [OF patch_Normal_pre [OF assms(1)] this] assms(1) show False by simp
qed

lemma patch_success:
  assumes "status (patch m s) = Normal"
  shows "trace (patch m s) =
        trace s @ map (\<lambda>d. AttrSet (the (target m (heap s) (fst d))) (snd d) (VBool True)) dispositions"
    and "mro (heap (patch m s) x) = mro (heap s x)"
    and "dict (heap (patch m s) x) k =
          (if x \<in> set (targets m (heap s) dispositions k) then Some (VBool True) else dict (heap s x) k)"
proof -
  have "\<forall>d \<in> set dispositions. target m (heap s) (fst d) \<noteq> None"
    using patch_Normal_targets [OF assms] by blast
  from fold_success [OF separated_dispositions patch_Normal_pre [OF assms] this]
  show "trace (patch m s) =
        trace s @ map (\<lambda>d. AttrSet (the (target m (heap s) (fst d))) (snd d) (VBool True)) dispositions"
    and "mro (heap (patch m s) x) = mro (heap s x)"
    and "dict (heap (patch m s) x) k =
          (if x \<in> set (targets m (heap s) dispositions k) then Some (VBool True) else dict (heap s x) k)"
    unfolding patch_fold by blast+
qed

lemma patch_succeeds:
  assumes "status s = Normal" and "\<forall>d \<in> set dispositions. target m (heap s) (fst d) \<noteq> None"
  shows "status (patch m s) = Normal"
  using fold_success [OF separated_dispositions assms] unfolding patch_fold by blast

lemma patch_mro: "mro (heap (patch m s) x) = mro (heap s x)"
  using fold_frame [OF separated_dispositions, of m s] unfolding patch_fold by blast

lemma patch_dict_cases:
  "dict (heap (patch m s) x) k = dict (heap s x) k
   \<or> x \<in> set (targets m (heap s) dispositions k) \<and> dict (heap (patch m s) x) k = Some (VBool True)"
  using fold_frame [OF separated_dispositions, of m s] unfolding patch_fold by blast

lemma patch_dict_other:
  "k \<noteq> expecting_failure_attr \<Longrightarrow> k \<noteq> skip_attr \<Longrightarrow>
   dict (heap (patch m s) x) k = dict (heap s x) k"
  using patch_dict_cases [of m s x k]
    targets_outside [OF separated_dispositions, of k m "heap s"] by auto

lemma patch_getattr_path:
  assumes "expecting_failure_attr \<notin> set p" and "skip_attr \<notin> set p"
  shows "getattr_path (heap (patch m s)) v p = getattr_path (heap s) v p"
proof (rule getattr_path_cong)
  fix a x assume "a \<in> set p"
  with assms have "a \<noteq> expecting_failure_attr" "a \<noteq> skip_attr" by auto
  then show "dict (heap (patch m s) x) a = dict (heap s x) a" by (rule patch_dict_other)
qed (rule patch_mro)

lemma patch_target:
  assumes "d \<in> set dispositions"
  shows "target m (heap (patch m s)) (fst d) = target m (heap s) (fst d)"
proof -
  have "expecting_failure_attr \<notin> set (fst d)" "skip_attr \<notin> set (fst d)"
    using separated_dispositions assms by (auto simp: separated_def)
  then show ?thesis by (simp add: target_def patch_getattr_path)
qed

lemma patch_runner_starts: "runner_starts (trace (patch m s)) = runner_starts (trace s)"
  unfolding patch_fold by (rule fold_runner_starts)

lemma patch_targets:
  "set (targets m (heap (patch m s)) dispositions k) = set (targets m (heap s) dispositions k)"
  by (simp add: set_targets patch_target cong: rev_conj_cong bex_cong)

lemma markers_distinct: "expecting_failure_attr \<noteq> skip_attr"
  by (simp add: expecting_failure_attr_def skip_attr_def)

lemma expecting_failure_targets:
  "x \<in> set (targets m h dispositions expecting_failure_attr) \<longleftrightarrow>
   (\<exists>cf \<in> set expecting_failure. getattr_path h (VRef m) [fst cf, snd cf] = Inr (VRef x))"
  using markers_distinct by (auto simp: set_targets dispositions_def target_Some_iff)

lemma skip_targets:
  "x \<in> set (targets m h dispositions skip_attr) \<longleftrightarrow>
   getattr_path h (VRef m) [skip_class] = Inr (VRef x)"
  using markers_distinct by (auto simp: set_targets dispositions_def target_Some_iff)

lemma patch_marks:
  assumes "status (patch m s) = Normal" and "d \<in> set dispositions"
  shows "\<exists>r. getattr_path (heap (patch m s)) (VRef m) (fst d) = Inr (VRef r)
           \<and> getattr_path (heap s) (VRef m) (fst d) = Inr (VRef r)
           \<and> dict (heap (patch m s) r) (snd d) = Some (VBool True)"
proof -
  from patch_Normal_targets [OF assms] obtain r where r: "target m (heap s) (fst d) = Some r"
    by auto
  then have "target m (heap (patch m s)) (fst d) = Some r"
    using assms(2) by (simp add: patch_target)
  moreover have "r \<in> set (targets m (heap s) dispositions (snd d))"
    using r assms(2) by (auto simp: set_targets)
  then have "dict (heap (patch m s) r) (snd d) = Some (VBool True)"
    by (simp add: patch_success(3) [OF assms(1)])
  ultimately show ?thesis using r by (auto simp: target_Some_iff)
qed

lemma wrapper_main:
  "status (patch m s) = Normal \<Longrightarrow>
   descriptor_test_wrapper run ''__main__'' m s =
     (patch m s)\<lparr>status := Exited (run m 2 (heap (patch m s))),
                 trace := trace (patch m s) @ [RunnerStarted m 2 (heap (patch m s))]\<rparr>"
  by (simp add: descriptor_test_wrapper_def unittest_main_def Let_def)

lemma wrapper_not_run:
  "status (patch m s) \<noteq> Normal \<or> name \<noteq> ''__main__'' \<Longrightarrow>
   descriptor_test_wrapper run name m s = patch m s"
  by (auto simp: descriptor_test_wrapper_def unittest_main_def Let_def)

lemma patch_marks_all:
  assumes "status (patch m s) = Normal"
  shows "\<forall>d \<in> set dispositions.
           \<exists>r. getattr_path (heap (patch m s)) (VRef m) (fst d) = Inr (VRef r)
             \<and> dict (heap (patch m s) r) (snd d) = Some (VBool True)"
  using patch_marks [OF assms] by blast

lemma skip_class_unlisted: "skip_class \<notin> fst ` set expecting_failure"
  by code_simp

lemma skip_listed: "([skip_class], skip_attr) \<in> set dispositions"
  by (simp add: dispositions_def)

subsection \<open>The sample module and its variants\<close>

lemma sample_resolves: "\<forall>d \<in> set dispositions. target 0 sample_heap (fst d) \<noteq> None"
  by code_simp

lemma sample_patch_Normal: "status (patch 0 (init sample_heap)) = Normal"
  by (rule patch_succeeds) (simp_all add: init_def sample_resolves)

lemma sample_runner_ok: "sample_runner 0 2 (heap (patch 0 (init sample_heap))) = 0"
  by code_simp

lemma sample_frame_facts:
  "dict (sample_heap 3) ''testJsonName'' = Some (VRef 13)
   \<and> ''testJsonName'' \<noteq> expecting_failure_attr \<and> ''testJsonName'' \<noteq> skip_attr
   \<and> getattr_path sample_heap (VRef 0) [skip_class] \<noteq> Inr (VRef 6)
   \<and> dict (sample_heap 6) skip_attr = Some (VBool True)
   \<and> dict (sample_heap 4) expecting_failure_attr = None
   \<and> (\<forall>cf \<in> set expecting_failure.
         getattr_path sample_heap (VRef 0) [fst cf, snd cf] \<noteq> Inr (VRef 4))"
  by code_simp

lemma sample_unmarked:
  "dict (sample_heap 12) expecting_failure_attr \<noteq> Some (VBool True)
   \<and> dict (sample_heap 12) skip_attr \<noteq> Some (VBool True)
   \<and> getattr_path sample_heap (VRef 0) [skip_class] \<noteq> Inr (VRef 12)"
  by code_simp

lemma stale_missing:
  "getattr_path stale_heap (VRef 0) [''MakeDescriptorTest'', ''testJsonName'']
     = Inl (AttributeError ''testJsonName'')"
  by code_simp

lemma stale_listed: "(''MakeDescriptorTest'', ''testJsonName'') \<in> set expecting_failure"
  by code_simp

lemma preset_variant: "marker_variant sample_heap preset_heap"
  by (simp add: marker_variant_def preset_heap_def dict_store mro_store)

lemma preset_differs:
  "dict (preset_heap 10) expecting_failure_attr = Some (VBool False)
   \<and> dict (sample_heap 10) expecting_failure_attr = None
   \<and> dict (preset_heap 5) skip_attr = Some (VStr ''later'')
   \<and> dict (sample_heap 5) skip_attr = None"
  by code_simp

section \<open>Claims\<close>

text \<open>
  C1 (as amended).  When the assignments all succeed, every listed pair of class
  and method denotes a function object whose expected-failure marker reads
  \<^verbatim>\<open>True\<close>, and the marker of every object that no listed pair denotes is left
  as it was before (so it is unset or false afterwards exactly when it was so
  before).
\<close>

theorem expecting_failure_marked:
  assumes "status (patch m s) = Normal"
  shows "(\<forall>cf \<in> set expecting_failure.
           \<exists>r. getattr_path (heap (patch m s)) (VRef m) [fst cf, snd cf] = Inr (VRef r)
             \<and> getattr (heap (patch m s)) (VRef r) expecting_failure_attr = Inr (VBool True))
       \<and> (\<forall>x. (\<forall>cf \<in> set expecting_failure.
                  getattr_path (heap s) (VRef m) [fst cf, snd cf] \<noteq> Inr (VRef x))
             \<longrightarrow> dict (heap (patch m s) x) expecting_failure_attr
                 = dict (heap s x) expecting_failure_attr)"
proof (intro conjI ballI allI impI)
  fix cf assume "cf \<in> set expecting_failure"
  then have "([fst cf, snd cf], expecting_failure_attr) \<in> set dispositions"
    by (auto simp: dispositions_def)
  from patch_marks [OF assms this]
  show "\<exists>r. getattr_path (heap (patch m s)) (VRef m) [fst cf, snd cf] = Inr (VRef r)
             \<and> getattr (heap (patch m s)) (VRef r) expecting_failure_attr = Inr (VBool True)"
    by (auto simp del: getattr.simps getattr_path.simps intro: getattr_own)
next
  fix x
  assume "\<forall>cf \<in> set expecting_failure.
            getattr_path (heap s) (VRef m) [fst cf, snd cf] \<noteq> Inr (VRef x)"
  then have "x \<notin> set (targets m (heap s) dispositions expecting_failure_attr)"
    by (simp add: expecting_failure_targets del: getattr_path.simps)
  then show "dict (heap (patch m s) x) expecting_failure_attr
                 = dict (heap s x) expecting_failure_attr"
    by (simp add: patch_success(3) [OF assms])
qed

theorem expecting_failure_marked_witness:
  "status (patch 0 (init sample_heap)) = Normal
   \<and> (''MakeDescriptorTest'', ''testJsonName'') \<in> set expecting_failure
   \<and> (\<exists>r. getattr_path (heap (patch 0 (init sample_heap))) (VRef 0)
              [''MakeDescriptorTest'', ''testJsonName''] = Inr (VRef r)
           \<and> getattr (heap (patch 0 (init sample_heap))) (VRef r) expecting_failure_attr
               = Inr (VBool True))
   \<and> dict (heap (patch 0 (init sample_heap)) 4) expecting_failure_attr
       = dict (sample_heap 4) expecting_failure_attr"
proof -
  note inst = expecting_failure_marked [OF sample_patch_Normal]
  from inst have "\<forall>cf \<in> set expecting_failure.
      \<exists>r. getattr_path (heap (patch 0 (init sample_heap))) (VRef 0) [fst cf, snd cf] = Inr (VRef r)
        \<and> getattr (heap (patch 0 (init sample_heap))) (VRef r) expecting_failure_attr
            = Inr (VBool True)"
    by blast
  from bspec [OF this stale_listed]
  have marked: "\<exists>r. getattr_path (heap (patch 0 (init sample_heap))) (VRef 0)
              [''MakeDescriptorTest'', ''testJsonName''] = Inr (VRef r)
           \<and> getattr (heap (patch 0 (init sample_heap))) (VRef r) expecting_failure_attr
               = Inr (VBool True)"
    by (simp only: fst_conv snd_conv)
  have other: "\<forall>cf \<in> set expecting_failure.
      getattr_path sample_heap (VRef 0) [fst cf, snd cf] \<noteq> Inr (VRef 4)"
    using sample_frame_facts by blast
  have "\<forall>cf \<in> set expecting_failure.
      getattr_path (heap (init sample_heap)) (VRef 0) [fst cf, snd cf] \<noteq> Inr (VRef 4)"
    unfolding init_simps by (rule other)
  with inst have "dict (heap (patch 0 (init sample_heap)) 4) expecting_failure_attr
       = dict (heap (init sample_heap) 4) expecting_failure_attr"
    by blast
  then have kept: "dict (heap (patch 0 (init sample_heap)) 4) expecting_failure_attr
       = dict (sample_heap 4) expecting_failure_attr"
    by (simp only: init_simps)
  from sample_patch_Normal stale_listed marked kept show ?thesis by blast
qed

text \<open>
  C1 as stated fails on the sample module: the pair \<^verbatim>\<open>DescriptorTest\<close>,
  \<^verbatim>\<open>testEnumValueName\<close> is not listed, its function had no marker before the
  assignments, and it reads \<^verbatim>\<open>True\<close> afterwards, because the listed pair
  \<^verbatim>\<open>NewDescriptorTest\<close>, \<^verbatim>\<open>testEnumValueName\<close> denotes the same inherited
  function object.
\<close>

theorem expecting_failure_only_counterexample:
  "status (patch 0 (init sample_heap)) = Normal
   \<and> (''DescriptorTest'', ''testEnumValueName'') \<notin> set expecting_failure
   \<and> getattr_path (heap (patch 0 (init sample_heap))) (VRef 0)
        [''DescriptorTest'', ''testEnumValueName''] = Inr (VRef 22)
   \<and> getattr sample_heap (VRef 22) expecting_failure_attr
        = Inl (AttributeError expecting_failure_attr)
   \<and> getattr (heap (patch 0 (init sample_heap))) (VRef 22) expecting_failure_attr
        = Inr (VBool True)"
  by code_simp

text \<open>
  C2 (as amended).  When the assignments all succeed, the class object bound to
  \<^verbatim>\<open>DescriptorTest\<close> has the skip marker \<^verbatim>\<open>True\<close> stored in its own
  dictionary (and so reads it as \<^verbatim>\<open>True\<close>), and the skip marker stored in the
  own dictionary of every other object is left as it was before: a class other
  than \<^verbatim>\<open>DescriptorTest\<close> has no skip marker stored on it afterwards exactly
  when it had none stored before.
\<close>

theorem skip_marked:
  assumes "status (patch m s) = Normal"
  shows "\<exists>r. getattr (heap (patch m s)) (VRef m) skip_class = Inr (VRef r)
           \<and> dict (heap (patch m s) r) skip_attr = Some (VBool True)
           \<and> getattr (heap (patch m s)) (VRef r) skip_attr = Inr (VBool True)
           \<and> (\<forall>x. x \<noteq> r \<longrightarrow>
                 dict (heap (patch m s) x) skip_attr = dict (heap s x) skip_attr)"
proof -
  from patch_marks [OF assms skip_listed] obtain r
    where r: "getattr_path (heap (patch m s)) (VRef m) [skip_class] = Inr (VRef r)"
      "getattr_path (heap s) (VRef m) [skip_class] = Inr (VRef r)"
      "dict (heap (patch m s) r) skip_attr = Some (VBool True)"
    by auto
  have "getattr (heap (patch m s)) (VRef m) skip_class = Inr (VRef r)"
    using r(1) by (simp split: sum.splits)
  moreover have "getattr (heap (patch m s)) (VRef r) skip_attr = Inr (VBool True)"
    using r(3) by (rule getattr_own)
  moreover have "dict (heap (patch m s) x) skip_attr = dict (heap s x) skip_attr" if "x \<noteq> r" for x
  proof -
    have "x \<notin> set (targets m (heap s) dispositions skip_attr)"
      using that r(2) by (simp add: skip_targets del: getattr_path.simps)
    then show ?thesis by (simp add: patch_success(3) [OF assms])
  qed
  ultimately show ?thesis using r(3) by blast
qed

theorem skip_marked_witness:
  "status (patch 0 (init sample_heap)) = Normal
   \<and> (\<exists>r. getattr (heap (patch 0 (init sample_heap))) (VRef 0) skip_class = Inr (VRef r)
           \<and> dict (heap (patch 0 (init sample_heap)) r) skip_attr = Some (VBool True)
           \<and> getattr (heap (patch 0 (init sample_heap))) (VRef r) skip_attr = Inr (VBool True)
           \<and> (\<forall>x. x \<noteq> r \<longrightarrow>
                 dict (heap (patch 0 (init sample_heap)) x) skip_attr
                   = dict (heap (init sample_heap) x) skip_attr))"
  using skip_marked [OF sample_patch_Normal] sample_patch_Normal by blast

text \<open>
  C2 as stated fails on the sample module: the class \<^verbatim>\<open>UpstreamSkippedTest\<close>
  (object 6) is another class of the module than \<^verbatim>\<open>DescriptorTest\<close> (object
  5), it had the skip marker \<^verbatim>\<open>True\<close> stored on it before the assignments, and
  it still has it afterwards, so two classes carry the marker.
\<close>

theorem skip_only_counterexample:
  "status (patch 0 (init sample_heap)) = Normal
   \<and> getattr (heap (patch 0 (init sample_heap))) (VRef 0) skip_class = Inr (VRef 5)
   \<and> dict (heap (patch 0 (init sample_heap)) 5) skip_attr = Some (VBool True)
   \<and> getattr (heap (patch 0 (init sample_heap))) (VRef 0) ''UpstreamSkippedTest'' = Inr (VRef 6)
   \<and> dict (sample_heap 6) skip_attr = Some (VBool True)
   \<and> dict (heap (patch 0 (init sample_heap)) 6) skip_attr = Some (VBool True)"
  by code_simp

text \<open>
  C3.  Idempotence: on every state from which the assignments all succeed,
  running them a second time succeeds as well and leaves the store exactly as the
  first run left it.
\<close>

theorem patch_idempotent:
  assumes "status (patch m s) = Normal"
  shows "status (patch m (patch m s)) = Normal
       \<and> heap (patch m (patch m s)) = heap (patch m s)"
proof -
  have "\<forall>d \<in> set dispositions. target m (heap (patch m s)) (fst d) \<noteq> None"
    using patch_Normal_targets [OF assms] by (simp add: patch_target)
  with assms have again: "status (patch m (patch m s)) = Normal"
    by (rule patch_succeeds)
  have "heap (patch m (patch m s)) = heap (patch m s)"
  proof (rule heap_eqI)
    fix x k
    show "mro (heap (patch m (patch m s)) x) = mro (heap (patch m s) x)"
      by (rule patch_mro)
    show "dict (heap (patch m (patch m s)) x) k = dict (heap (patch m s) x) k"
      by (simp add: patch_success(3) [OF again] patch_success(3) [OF assms] patch_targets)
  qed
  with again show ?thesis by simp
qed

theorem patch_idempotent_witness:
  "status (patch 0 (init sample_heap)) = Normal
   \<and> status (patch 0 (patch 0 (init sample_heap))) = Normal
   \<and> heap (patch 0 (patch 0 (init sample_heap))) = heap (patch 0 (init sample_heap))"
  using patch_idempotent [OF sample_patch_Normal] sample_patch_Normal by simp

text \<open>
  C4.  If a listed pair of class and method, or the skipped class, names
  something that does not exist on the module, loading the script ends with an
  \<^verbatim>\<open>AttributeError\<close>, whatever \<^verbatim>\<open>__name__\<close> is, and the test runner is never
  started: no entry is passed over silently.
\<close>

theorem missing_target_raises:
  assumes "(\<exists>cf \<in> set expecting_failure. \<exists>e. getattr_path h (VRef m) [fst cf, snd cf] = Inl e)
         \<or> (\<exists>e. getattr_path h (VRef m) [skip_class] = Inl e)"
  shows "(\<exists>n. status (descriptor_test_wrapper run name m (init h)) = Raised (AttributeError n))
       \<and> runner_starts (trace (descriptor_test_wrapper run name m (init h))) = []"
proof -
  from assms obtain d where d: "d \<in> set dispositions" "target m h (fst d) = None"
  proof
    assume "\<exists>cf \<in> set expecting_failure. \<exists>e. getattr_path h (VRef m) [fst cf, snd cf] = Inl e"
    then obtain cf e where cf: "cf \<in> set expecting_failure"
      "getattr_path h (VRef m) [fst cf, snd cf] = Inl e" by blast
    have "([fst cf, snd cf], expecting_failure_attr) \<in> set dispositions"
      using cf(1) by (auto simp: dispositions_def)
    moreover have "target m h (fst ([fst cf, snd cf], expecting_failure_attr)) = None"
      using missing_target_None [OF cf(2)] by simp
    ultimately show ?thesis by (rule that)
  next
    assume "\<exists>e. getattr_path h (VRef m) [skip_class] = Inl e"
    then obtain e where e: "getattr_path h (VRef m) [skip_class] = Inl e" ..
    have "([skip_class], skip_attr) \<in> set dispositions" by (simp add: dispositions_def)
    moreover have "target m h (fst ([skip_class], skip_attr)) = None"
      using missing_target_None [OF e] by simp
    ultimately show ?thesis by (rule that)
  qed
  have "status (init h) = Normal" by (simp add: init_def)
  moreover have "\<exists>d \<in> set dispositions. target m (heap (init h)) (fst d) = None"
    using d by (auto simp: init_def)
  ultimately obtain n where n: "status (patch m (init h)) = Raised (AttributeError n)"
    using patch_raises by blast
  then have w: "descriptor_test_wrapper run name m (init h) = patch m (init h)"
    by (simp add: wrapper_not_run)
  have "runner_starts (trace (patch m (init h))) = []"
    by (simp add: patch_runner_starts init_def)
  with n w show ?thesis by simp
qed

theorem missing_target_raises_witness:
  "(''MakeDescriptorTest'', ''testJsonName'') \<in> set expecting_failure
   \<and> getattr_path stale_heap (VRef 0) [''MakeDescriptorTest'', ''testJsonName'']
       = Inl (AttributeError ''testJsonName'')
   \<and> (\<exists>n. status (descriptor_test_wrapper sample_runner ''__main__'' 0 (init stale_heap))
            = Raised (AttributeError n))
   \<and> runner_starts (trace (descriptor_test_wrapper sample_runner ''__main__'' 0 (init stale_heap))) = []"
proof -
  have "\<exists>cf \<in> set expecting_failure. \<exists>e.
          getattr_path stale_heap (VRef 0) [fst cf, snd cf] = Inl e"
    by (rule bexI [OF _ stale_listed], rule exI, simp only: fst_conv snd_conv, rule stale_missing)
  then show ?thesis
    using missing_target_raises [of stale_heap 0 sample_runner "''__main__''"]
      stale_listed stale_missing by blast
qed

text \<open>
  C5.  Run as the top-level program on a module where the assignments all
  succeed, the script starts the runner exactly once, on the module
  \<^verbatim>\<open>descriptor_test\<close> as patched and with verbosity 2, and ends with the exit
  code the runner computes.
\<close>

theorem main_runs_patched_module:
  assumes "status (patch m (init h)) = Normal"
  shows "status (descriptor_test_wrapper run ''__main__'' m (init h))
           = Exited (run m 2 (heap (patch m (init h))))
       \<and> runner_starts (trace (descriptor_test_wrapper run ''__main__'' m (init h)))
           = [(m, 2, heap (patch m (init h)))]"
  using assms
  by (simp add: wrapper_main runner_starts_append patch_runner_starts init_def)

theorem main_runs_patched_module_witness:
  "status (patch 0 (init sample_heap)) = Normal
   \<and> status (descriptor_test_wrapper sample_runner ''__main__'' 0 (init sample_heap)) = Exited 0
   \<and> runner_starts (trace (descriptor_test_wrapper sample_runner ''__main__'' 0 (init sample_heap)))
       = [(0, 2, heap (patch 0 (init sample_heap)))]"
  using main_runs_patched_module [OF sample_patch_Normal, of sample_runner]
    sample_patch_Normal sample_runner_ok by simp

text \<open>
  C6.  Whenever the log of a run of the script holds a start of the test
  runner, all twenty assignments succeeded before it: the log consists of the
  twenty stores in the order of the script followed by that one start, and the
  store the runner saw is the fully patched one, in which every listed target
  carries its marker.
\<close>

theorem runner_after_patching:
  assumes "(mo, v, hs) \<in> set (runner_starts (trace (descriptor_test_wrapper run name m (init h))))"
  shows "status (patch m (init h)) = Normal
       \<and> hs = heap (patch m (init h))
       \<and> trace (descriptor_test_wrapper run name m (init h)) =
           map (\<lambda>d. AttrSet (the (target m h (fst d))) (snd d) (VBool True)) dispositions
             @ [RunnerStarted m 2 hs]
       \<and> (\<forall>d \<in> set dispositions.
             \<exists>r. getattr_path hs (VRef m) (fst d) = Inr (VRef r)
               \<and> dict (hs r) (snd d) = Some (VBool True))"
proof -
  have none: "runner_starts (trace (patch m (init h))) = []"
    by (simp add: patch_runner_starts init_def)
  have ran: "status (patch m (init h)) = Normal \<and> name = ''__main__''"
  proof (rule ccontr)
    assume "\<not> ?thesis"
    then have "descriptor_test_wrapper run name m (init h) = patch m (init h)"
      by (intro wrapper_not_run) blast
    with assms none show False by simp
  qed
  then have ok: "status (patch m (init h)) = Normal" and name: "name = ''__main__''"
    by simp_all
  have w: "descriptor_test_wrapper run name m (init h) =
     (patch m (init h))\<lparr>status := Exited (run m 2 (heap (patch m (init h)))),
        trace := trace (patch m (init h)) @ [RunnerStarted m 2 (heap (patch m (init h)))]\<rparr>"
    unfolding name using ok by (rule wrapper_main)
  have hs: "hs = heap (patch m (init h))"
    using assms by (simp add: w runner_starts_append none)
  have tr: "trace (descriptor_test_wrapper run name m (init h)) =
           map (\<lambda>d. AttrSet (the (target m h (fst d))) (snd d) (VBool True)) dispositions
             @ [RunnerStarted m 2 hs]"
    using patch_success(1) [OF ok] by (simp add: w hs init_simps)
  from ok hs tr patch_marks_all [OF ok] show ?thesis by simp
qed

theorem runner_after_patching_witness:
  "(0, 2, heap (patch 0 (init sample_heap)))
     \<in> set (runner_starts (trace (descriptor_test_wrapper sample_runner ''__main__'' 0 (init sample_heap))))
   \<and> status (patch 0 (init sample_heap)) = Normal
   \<and> trace (descriptor_test_wrapper sample_runner ''__main__'' 0 (init sample_heap)) =
       map (\<lambda>d. AttrSet (the (target 0 sample_heap (fst d))) (snd d) (VBool True)) dispositions
         @ [RunnerStarted 0 2 (heap (patch 0 (init sample_heap)))]
   \<and> (\<exists>r. getattr_path (heap (patch 0 (init sample_heap))) (VRef 0) [skip_class] = Inr (VRef r)
           \<and> dict (heap (patch 0 (init sample_heap)) r) skip_attr = Some (VBool True))"
proof -
  have start: "(0, 2, heap (patch 0 (init sample_heap)))
     \<in> set (runner_starts (trace (descriptor_test_wrapper sample_runner ''__main__'' 0 (init sample_heap))))"
    by (simp add: wrapper_main [OF sample_patch_Normal] runner_starts_append)
  note inst = runner_after_patching [OF start]
  from inst have "\<forall>d \<in> set dispositions.
      \<exists>r. getattr_path (heap (patch 0 (init sample_heap))) (VRef 0) (fst d) = Inr (VRef r)
        \<and> dict (heap (patch 0 (init sample_heap)) r) (snd d) = Some (VBool True)"
    by blast
  from bspec [OF this skip_listed]
  have marked: "\<exists>r. getattr_path (heap (patch 0 (init sample_heap))) (VRef 0) [skip_class] = Inr (VRef r)
           \<and> dict (heap (patch 0 (init sample_heap)) r) skip_attr = Some (VBool True)"
    by (simp only: fst_conv snd_conv)
  from inst start marked show ?thesis by blast
qed

text \<open>
  C7.  The assignments yield nothing but the updated state, and in the store
  they change marker attributes only: every ancestor list and every attribute
  other than the two markers is unchanged on every object, the expected-failure
  marker is unchanged on every object that no listed pair denotes, the skip
  marker is unchanged on every object other than the skipped class, and a marker
  that did change reads \<^verbatim>\<open>True\<close>.  This holds whether or not the assignments
  all succeed.
\<close>

theorem patch_frame:
  "(\<forall>x. mro (heap (patch m s) x) = mro (heap s x))
   \<and> (\<forall>x k. k \<noteq> expecting_failure_attr \<and> k \<noteq> skip_attr
          \<longrightarrow> dict (heap (patch m s) x) k = dict (heap s x) k)
   \<and> (\<forall>x. (\<forall>cf \<in> set expecting_failure.
              getattr_path (heap s) (VRef m) [fst cf, snd cf] \<noteq> Inr (VRef x))
          \<longrightarrow> dict (heap (patch m s) x) expecting_failure_attr
              = dict (heap s x) expecting_failure_attr)
   \<and> (\<forall>x. getattr_path (heap s) (VRef m) [skip_class] \<noteq> Inr (VRef x)
          \<longrightarrow> dict (heap (patch m s) x) skip_attr = dict (heap s x) skip_attr)
   \<and> (\<forall>x k. dict (heap (patch m s) x) k = dict (heap s x) k
          \<or> dict (heap (patch m s) x) k = Some (VBool True))"
proof (intro conjI allI impI)
  fix x show "mro (heap (patch m s) x) = mro (heap s x)" by (rule patch_mro)
next
  fix x k assume "k \<noteq> expecting_failure_attr \<and> k \<noteq> skip_attr"
  then show "dict (heap (patch m s) x) k = dict (heap s x) k"
    by (simp add: patch_dict_other)
next
  fix x
  assume "\<forall>cf \<in> set expecting_failure.
            getattr_path (heap s) (VRef m) [fst cf, snd cf] \<noteq> Inr (VRef x)"
  then have "x \<notin> set (targets m (heap s) dispositions expecting_failure_attr)"
    by (simp add: expecting_failure_targets del: getattr_path.simps)
  with patch_dict_cases [of m s x expecting_failure_attr]
  show "dict (heap (patch m s) x) expecting_failure_attr = dict (heap s x) expecting_failure_attr"
    by blast
next
  fix x
  assume "getattr_path (heap s) (VRef m) [skip_class] \<noteq> Inr (VRef x)"
  then have "x \<notin> set (targets m (heap s) dispositions skip_attr)"
    by (simp add: skip_targets del: getattr_path.simps)
  with patch_dict_cases [of m s x skip_attr]
  show "dict (heap (patch m s) x) skip_attr = dict (heap s x) skip_attr"
    by blast
next
  fix x k
  show "dict (heap (patch m s) x) k = dict (heap s x) k
          \<or> dict (heap (patch m s) x) k = Some (VBool True)"
    using patch_dict_cases [of m s x k] by blast
qed

theorem patch_frame_witness:
  "''testJsonName'' \<noteq> expecting_failure_attr \<and> ''testJsonName'' \<noteq> skip_attr
   \<and> dict (heap (patch 0 (init sample_heap)) 3) ''testJsonName'' = Some (VRef 13)
   \<and> mro (heap (patch 0 (init sample_heap)) 4) = mro (sample_heap 4)
   \<and> dict (heap (patch 0 (init sample_heap)) 4) expecting_failure_attr = None
   \<and> getattr_path sample_heap (VRef 0) [skip_class] \<noteq> Inr (VRef 6)
   \<and> dict (heap (patch 0 (init sample_heap)) 6) skip_attr = Some (VBool True)"
proof -
  have h: "heap (init sample_heap) = sample_heap" by (simp add: init_def)
  from patch_frame [of 0 "init sample_heap"] sample_frame_facts show ?thesis
    unfolding h by metis
qed

text \<open>
  C8 (as amended).  By name the table is exclusive: the skipped class is the
  class of no listed pair.  When the assignments all succeed, an object that
  carried neither marker as \<^verbatim>\<open>True\<close> before, and that is not at once the skipped
  class and the function of a listed pair, does not carry both markers
  afterwards.
\<close>

theorem dispositions_exclusive:
  assumes "status (patch m s) = Normal"
    and "dict (heap s x) expecting_failure_attr \<noteq> Some (VBool True)"
    and "dict (heap s x) skip_attr \<noteq> Some (VBool True)"
    and "getattr_path (heap s) (VRef m) [skip_class] \<noteq> Inr (VRef x)
         \<or> (\<forall>cf \<in> set expecting_failure.
               getattr_path (heap s) (VRef m) [fst cf, snd cf] \<noteq> Inr (VRef x))"
  shows "skip_class \<notin> fst ` set expecting_failure
       \<and> \<not> (dict (heap (patch m s) x) expecting_failure_attr = Some (VBool True)
            \<and> dict (heap (patch m s) x) skip_attr = Some (VBool True))"
proof -
  have "x \<notin> set (targets m (heap s) dispositions skip_attr)
        \<or> x \<notin> set (targets m (heap s) dispositions expecting_failure_attr)"
    using assms(4) by (simp add: skip_targets expecting_failure_targets del: getattr_path.simps)
  then have "dict (heap (patch m s) x) skip_attr = dict (heap s x) skip_attr
        \<or> dict (heap (patch m s) x) expecting_failure_attr = dict (heap s x) expecting_failure_attr"
    by (auto simp: patch_success(3) [OF assms(1)])
  with assms(2,3) skip_class_unlisted show ?thesis by auto
qed

theorem dispositions_exclusive_witness:
  "status (patch 0 (init sample_heap)) = Normal
   \<and> dict (sample_heap 12) expecting_failure_attr \<noteq> Some (VBool True)
   \<and> dict (sample_heap 12) skip_attr \<noteq> Some (VBool True)
   \<and> getattr_path sample_heap (VRef 0) [skip_class] \<noteq> Inr (VRef 12)
   \<and> skip_class \<notin> fst ` set expecting_failure
   \<and> \<not> (dict (heap (patch 0 (init sample_heap)) 12) expecting_failure_attr = Some (VBool True)
        \<and> dict (heap (patch 0 (init sample_heap)) 12) skip_attr = Some (VBool True))"
proof -
  have a: "dict (heap (init sample_heap) 12) expecting_failure_attr \<noteq> Some (VBool True)"
    and b: "dict (heap (init sample_heap) 12) skip_attr \<noteq> Some (VBool True)"
    and c: "getattr_path (heap (init sample_heap)) (VRef 0) [skip_class] \<noteq> Inr (VRef 12)
         \<or> (\<forall>cf \<in> set expecting_failure.
               getattr_path (heap (init sample_heap)) (VRef 0) [fst cf, snd cf] \<noteq> Inr (VRef 12))"
    using sample_unmarked unfolding init_simps by blast+
  from dispositions_exclusive [OF sample_patch_Normal a b c] sample_patch_Normal sample_unmarked
  show ?thesis by blast
qed

text \<open>
  C8 as stated fails on the sample module.  The function of the listed pair
  \<^verbatim>\<open>NewDescriptorTest\<close>, \<^verbatim>\<open>testImmutableCppDescriptor\<close> was skipped upstream and
  carries both markers afterwards.  The skipped class \<^verbatim>\<open>DescriptorTest\<close> owns
  \<^verbatim>\<open>testEnumValueName\<close>, a function that received the expected-failure marker
  through the subclass, and the subclass reads both the skip marker and that
  method's expected-failure marker as \<^verbatim>\<open>True\<close>.
\<close>

theorem dispositions_exclusive_counterexample:
  "status (patch 0 (init sample_heap)) = Normal
   \<and> getattr_path (heap (patch 0 (init sample_heap))) (VRef 0)
        [''NewDescriptorTest'', ''testImmutableCppDescriptor''] = Inr (VRef 26)
   \<and> dict (heap (patch 0 (init sample_heap)) 26) expecting_failure_attr = Some (VBool True)
   \<and> dict (heap (patch 0 (init sample_heap)) 26) skip_attr = Some (VBool True)
   \<and> getattr (heap (patch 0 (init sample_heap))) (VRef 0) skip_class = Inr (VRef 5)
   \<and> dict (heap (patch 0 (init sample_heap)) 5) ''testEnumValueName'' = Some (VRef 22)
   \<and> dict (heap (patch 0 (init sample_heap)) 22) expecting_failure_attr = Some (VBool True)
   \<and> getattr (heap (patch 0 (init sample_heap))) (VRef 0) ''NewDescriptorTest'' = Inr (VRef 4)
   \<and> getattr (heap (patch 0 (init sample_heap))) (VRef 4) skip_attr = Inr (VBool True)
   \<and> getattr_path (heap (patch 0 (init sample_heap))) (VRef 4)
        [''testEnumValueName'', expecting_failure_attr] = Inr (VBool True)"
  by code_simp

text \<open>
  C9.  The assignments never read a marker.  For two stores that differ at most
  in marker attributes (set, unset, \<^verbatim>\<open>False\<close> or any other value), the script
  ends in the same status, and when it succeeds every listed path denotes the
  same object in both stores and that object's marker is \<^verbatim>\<open>True\<close> in both
  results.
\<close>

theorem patch_ignores_prior_markers:
  assumes "marker_variant h h'"
  shows "status (patch m (init h)) = status (patch m (init h'))
       \<and> (status (patch m (init h)) = Normal \<longrightarrow>
           (\<forall>d \<in> set dispositions.
              \<exists>r. getattr_path h (VRef m) (fst d) = Inr (VRef r)
                \<and> getattr_path h' (VRef m) (fst d) = Inr (VRef r)
                \<and> dict (heap (patch m (init h)) r) (snd d) = Some (VBool True)
                \<and> dict (heap (patch m (init h')) r) (snd d) = Some (VBool True)))"
proof -
  have st: "status (patch m (init h)) = status (patch m (init h'))"
    using fold_variant [OF separated_dispositions, of "init h" "init h'" m] assms
    by (simp add: patch_fold init_simps)
  have marks: "\<exists>r. getattr_path h (VRef m) (fst d) = Inr (VRef r)
                \<and> getattr_path h' (VRef m) (fst d) = Inr (VRef r)
                \<and> dict (heap (patch m (init h)) r) (snd d) = Some (VBool True)
                \<and> dict (heap (patch m (init h')) r) (snd d) = Some (VBool True)"
    if ok: "status (patch m (init h)) = Normal" and d: "d \<in> set dispositions" for d
  proof -
    from ok st have ok': "status (patch m (init h')) = Normal" by simp
    have p: "expecting_failure_attr \<notin> set (fst d)" "skip_attr \<notin> set (fst d)"
      using separated_dispositions d by (auto simp: separated_def)
    have same: "getattr_path h (VRef m) (fst d) = getattr_path h' (VRef m) (fst d)"
      using assms p by (rule marker_variant_path)
    from patch_marks [OF ok d] obtain r
      where r: "getattr_path h (VRef m) (fst d) = Inr (VRef r)"
        "dict (heap (patch m (init h)) r) (snd d) = Some (VBool True)"
      by (auto simp: init_simps)
    from patch_marks [OF ok' d] obtain r'
      where r': "getattr_path h' (VRef m) (fst d) = Inr (VRef r')"
        "dict (heap (patch m (init h')) r') (snd d) = Some (VBool True)"
      by (auto simp: init_simps)
    from r(1) r'(1) same have "r' = r" by simp
    with r r' same show ?thesis by simp
  qed
  from st marks show ?thesis by blast
qed

theorem patch_ignores_prior_markers_witness:
  "marker_variant sample_heap preset_heap
   \<and> dict (preset_heap 10) expecting_failure_attr = Some (VBool False)
   \<and> dict (sample_heap 10) expecting_failure_attr = None
   \<and> dict (preset_heap 5) skip_attr = Some (VStr ''later'')
   \<and> dict (sample_heap 5) skip_attr = None
   \<and> status (patch 0 (init sample_heap)) = Normal
   \<and> status (patch 0 (init preset_heap)) = Normal
   \<and> (\<exists>r. getattr_path sample_heap (VRef 0) [skip_class] = Inr (VRef r)
           \<and> getattr_path preset_heap (VRef 0) [skip_class] = Inr (VRef r)
           \<and> dict (heap (patch 0 (init sample_heap)) r) skip_attr = Some (VBool True)
           \<and> dict (heap (patch 0 (init preset_heap)) r) skip_attr = Some (VBool True))"
proof -
  note inst = patch_ignores_prior_markers [OF preset_variant, of 0]
  from inst have ok: "status (patch 0 (init preset_heap)) = Normal"
    by (simp add: sample_patch_Normal)
  from inst sample_patch_Normal have "\<forall>d \<in> set dispositions.
      \<exists>r. getattr_path sample_heap (VRef 0) (fst d) = Inr (VRef r)
        \<and> getattr_path preset_heap (VRef 0) (fst d) = Inr (VRef r)
        \<and> dict (heap (patch 0 (init sample_heap)) r) (snd d) = Some (VBool True)
        \<and> dict (heap (patch 0 (init preset_heap)) r) (snd d) = Some (VBool True)"
    by blast
  from bspec [OF this skip_listed]
  have marked: "\<exists>r. getattr_path sample_heap (VRef 0) [skip_class] = Inr (VRef r)
           \<and> getattr_path preset_heap (VRef 0) [skip_class] = Inr (VRef r)
           \<and> dict (heap (patch 0 (init sample_heap)) r) skip_attr = Some (VBool True)
           \<and> dict (heap (patch 0 (init preset_heap)) r) skip_attr = Some (VBool True)"
    by (simp only: fst_conv snd_conv)
  from ok preset_variant preset_differs sample_patch_Normal marked show ?thesis by blast
qed

text \<open>
  C10.  When \<^verbatim>\<open>__name__\<close> is not \<^verbatim>\<open>__main__\<close>, loading the script is exactly
  the sequence of assignments: the test runner is never started, and when the
  load succeeds every listed target carries its marker.
\<close>

theorem import_does_not_run:
  assumes "name \<noteq> ''__main__''"
  shows "descriptor_test_wrapper run name m (init h) = patch m (init h)
       \<and> runner_starts (trace (descriptor_test_wrapper run name m (init h))) = []
       \<and> (status (descriptor_test_wrapper run name m (init h)) = Normal \<longrightarrow>
           (\<forall>d \<in> set dispositions.
              \<exists>r. getattr_path (heap (descriptor_test_wrapper run name m (init h))) (VRef m) (fst d)
                    = Inr (VRef r)
                \<and> dict (heap (descriptor_test_wrapper run name m (init h)) r) (snd d)
                    = Some (VBool True)))"
proof -
  have w: "descriptor_test_wrapper run name m (init h) = patch m (init h)"
    using assms by (simp add: wrapper_not_run)
  have "runner_starts (trace (patch m (init h))) = []"
    by (simp add: patch_runner_starts init_def)
  with w patch_marks_all [of m "init h"] show ?thesis by simp
qed

theorem import_does_not_run_witness:
  "''descriptor_test_wrapper'' \<noteq> ''__main__''
   \<and> descriptor_test_wrapper sample_runner ''descriptor_test_wrapper'' 0 (init sample_heap)
       = patch 0 (init sample_heap)
   \<and> runner_starts (trace (descriptor_test_wrapper sample_runner ''descriptor_test_wrapper'' 0
        (init sample_heap))) = []
   \<and> status (descriptor_test_wrapper sample_runner ''descriptor_test_wrapper'' 0 (init sample_heap))
       = Normal
   \<and> (\<exists>r. getattr_path (heap (descriptor_test_wrapper sample_runner ''descriptor_test_wrapper'' 0
                (init sample_heap))) (VRef 0) [skip_class] = Inr (VRef r)
           \<and> dict (heap (descriptor_test_wrapper sample_runner ''descriptor_test_wrapper'' 0
                (init sample_heap)) r) skip_attr = Some (VBool True))"
proof -
  have n: "''descriptor_test_wrapper'' \<noteq> ''__main__''" by simp
  note inst = import_does_not_run [OF n, of sample_runner 0 sample_heap]
  from inst have ok: "status (descriptor_test_wrapper sample_runner ''descriptor_test_wrapper'' 0
      (init sample_heap)) = Normal"
    by (simp add: sample_patch_Normal)
  with inst have "\<forall>d \<in> set dispositions.
      \<exists>r. getattr_path (heap (descriptor_test_wrapper sample_runner ''descriptor_test_wrapper'' 0
                (init sample_heap))) (VRef 0) (fst d) = Inr (VRef r)
        \<and> dict (heap (descriptor_test_wrapper sample_runner ''descriptor_test_wrapper'' 0
                (init sample_heap)) r) (snd d) = Some (VBool True)"
    by blast
  from bspec [OF this skip_listed]
  have marked: "\<exists>r. getattr_path (heap (descriptor_test_wrapper sample_runner ''descriptor_test_wrapper'' 0
                (init sample_heap))) (VRef 0) [skip_class] = Inr (VRef r)
           \<and> dict (heap (descriptor_test_wrapper sample_runner ''descriptor_test_wrapper'' 0
                (init sample_heap)) r) skip_attr = Some (VBool True)"
    by (simp only: fst_conv snd_conv)
  from inst ok n marked show ?thesis by blast
qed

end
